theory Spec2Isabelle
  imports Complex_Main "HOL-Library.Word"
begin

section \<open>JavaScript values\<close>

text \<open>
  A JavaScript string is a sequence of UTF-16 code units: \<open>s.length\<close> counts code units,
  \<open>substring\<close> and \<open>padStart\<close> cut and pad by code units, and a regular expression without
  the \<open>u\<close> flag matches one code unit at a time. A character outside the Basic
  Multilingual Plane is stored as two code units (a surrogate pair).
\<close>

type_synonym jsstring = "16 word list"

text \<open>An ASCII string literal of the source.\<close>

definition js :: "string \<Rightarrow> jsstring" where
  "js s = map of_char s"

text \<open>\<open>' '.repeat(n)\<close> for \<open>n \<ge> 0\<close>; every call site of the source guards the count.\<close>

definition spaces :: "nat \<Rightarrow> jsstring" where
  "spaces n = replicate n 0x20"

text \<open>\<open>s.padStart(n, c)\<close> with a one-character filler.\<close>

definition padStart :: "jsstring \<Rightarrow> nat \<Rightarrow> 16 word \<Rightarrow> jsstring" where
  "padStart s n c = replicate (n - length s) c @ s"

text \<open>
  Numbers of the order document are modelled as mathematical integers. \<open>String(n)\<close> of an
  integer is its decimal numeral (for a magnitude below ten to the 21, where JavaScript
  turns to exponent notation), \<open>n.toLocaleString('ko-KR')\<close> groups the digits in threes
  with commas; both put an ASCII minus sign before a negative number.
\<close>

fun decimalDigits :: "nat \<Rightarrow> jsstring" where
  "decimalDigits n =
     (if n < 10 then [of_nat (48 + n)]
      else decimalDigits (n div 10) @ [of_nat (48 + n mod 10)])"

declare decimalDigits.simps [simp del]

definition numberToString :: "int \<Rightarrow> jsstring" where
  "numberToString i =
     (if i < 0 then 0x2D # decimalDigits (nat (- i)) else decimalDigits (nat i))"

fun groupDigits :: "nat \<Rightarrow> jsstring" where
  "groupDigits n =
     (if n < 1000 then decimalDigits n
      else groupDigits (n div 1000) @ 0x2C # padStart (decimalDigits (n mod 1000)) 3 0x30)"

declare groupDigits.simps [simp del]

definition toLocaleString :: "int \<Rightarrow> jsstring" where
  "toLocaleString i =
     (if i < 0 then 0x2D # groupDigits (nat (- i)) else groupDigits (nat i))"

text \<open>
  The quotient \<open>amount / quantity\<close> is a JavaScript number: division by zero gives an
  infinity or NaN instead of raising. A finite quotient is kept exact; the binary
  rounding of a non-integral quotient is not modelled.
\<close>

datatype jsnum = Finite rat | PosInfinity | NegInfinity | NotANumber

definition divide_js :: "int \<Rightarrow> int \<Rightarrow> jsnum" where
  "divide_js a b =
     (if b = 0 then (if a = 0 then NotANumber else if 0 < a then PosInfinity else NegInfinity)
      else Finite (of_int a / of_int b))"

text \<open>
  \<open>x.toLocaleString('ko-KR')\<close> on a quotient. An integral value is rendered as above;
  the rendering of a fraction, an infinity or NaN belongs to the platform's number
  formatter, which is the parameter \<open>platform\<close>.
\<close>

definition localeNumber :: "(jsnum \<Rightarrow> jsstring) \<Rightarrow> jsnum \<Rightarrow> jsstring" where
  "localeNumber platform x =
     (case x of
        Finite r \<Rightarrow> if r = of_int \<lfloor>r\<rfloor> then toLocaleString \<lfloor>r\<rfloor> else platform x
      | _ \<Rightarrow> platform x)"

section \<open>Layout engine (receipt.js)\<close>

text \<open>The character class from AC00 to D7A3, matched against one code unit.\<close>

definition isKorean :: "16 word \<Rightarrow> bool" where
  "isKorean c = (0xAC00 \<le> c \<and> c \<le> 0xD7A3)"

text \<open>The number of matches of that class in \<open>text\<close>.\<close>

definition koreanCount :: "jsstring \<Rightarrow> nat" where
  "koreanCount text = length (filter isKorean text)"

text \<open>
  \<open>text.length + koreanCount\<close>: the width every function of the file computes
  (\<open>actualWidth\<close>, \<open>labelWidth\<close>, \<open>valueWidth\<close>, \<open>nameActualWidth\<close>).
\<close>

definition actualWidth :: "jsstring \<Rightarrow> nat" where
  "actualWidth text = length text + koreanCount text"

definition alignText :: "jsstring \<Rightarrow> jsstring \<Rightarrow> int \<Rightarrow> jsstring" where
  "alignText text align width =
     (if width \<le> int (actualWidth text) then text
      else
        let padding = nat (width - int (actualWidth text)) in
        if align = js ''center'' then
          (let leftPad = padding div 2;
               rightPad = padding - leftPad
           in spaces leftPad @ text @ spaces rightPad)
        else if align = js ''right'' then spaces padding @ text
        else text @ spaces padding)"

text \<open>The currency suffix appended by \<open>formatAmount\<close> is the syllable U+C6D0.\<close>

definition formatAmount :: "int \<Rightarrow> jsstring" where
  "formatAmount amount = toLocaleString amount @ [0xC6D0]"

definition formatPrice :: "int \<Rightarrow> int \<Rightarrow> jsstring" where
  "formatPrice amount width =
     (let formatted = formatAmount amount;
          padding = max 0 (width - int (length formatted))
      in spaces (nat padding) @ formatted)"

definition formatRow :: "jsstring \<Rightarrow> jsstring \<Rightarrow> int \<Rightarrow> jsstring" where
  "formatRow label val width =
     (let labelWidth = int (actualWidth label);
          valueWidth = int (actualWidth val);
          padding = max 0 (width - labelWidth - valueWidth)
      in label @ spaces (nat padding) @ val)"

subsection \<open>The width rule in the specification's words\<close>

text \<open>
  The specification counts code points: each code point in U+AC00..U+D7A3 takes two
  cells and every other code point one cell. \<open>codePoints\<close> reads a string as its code
  points, a high surrogate followed by a low surrogate being one code point;
  \<open>visualCells\<close> is the specification's width of a string.
\<close>

definition isHighSurrogate :: "16 word \<Rightarrow> bool" where
  "isHighSurrogate u = (0xD800 \<le> u \<and> u \<le> 0xDBFF)"

definition isLowSurrogate :: "16 word \<Rightarrow> bool" where
  "isLowSurrogate u = (0xDC00 \<le> u \<and> u \<le> 0xDFFF)"

fun codePoints :: "jsstring \<Rightarrow> nat list" where
  "codePoints [] = []"
| "codePoints [u] = [unat u]"
| "codePoints (h # l # us) =
     (if isHighSurrogate h \<and> isLowSurrogate l
      then (0x10000 + (unat h - 0xD800) * 0x400 + (unat l - 0xDC00)) # codePoints us
      else unat h # codePoints (l # us))"

definition cellsOf :: "nat \<Rightarrow> nat" where
  "cellsOf cp = (if 0xAC00 \<le> cp \<and> cp \<le> 0xD7A3 then 2 else 1)"

definition visualCells :: "jsstring \<Rightarrow> nat" where
  "visualCells s = sum_list (map cellsOf (codePoints s))"

text \<open>Whether a string holds a surrogate pair, that is, a character beyond U+FFFF.\<close>

fun hasSurrogatePair :: "jsstring \<Rightarrow> bool" where
  "hasSurrogatePair (h # l # us) =
     ((isHighSurrogate h \<and> isLowSurrogate l) \<or> hasSurrogatePair (l # us))"
| "hasSurrogatePair us = False"

section \<open>Command buffer builder (receipt.js)\<close>

text \<open>
  The builder calls methods of the printer object; the printer is modelled by the
  sequence of calls it has received.
\<close>

datatype command =
    AlignCenter | AlignLeft | DrawLine
  | SetTextQuadArea | SetTextDoubleHeight | SetTextNormal
  | Bold bool | Println jsstring | NewLine | Cut

record lineItem =
  productName :: jsstring
  quantity :: int
  amount :: int

text \<open>The local calendar fields that \<open>new Date(paidAt)\<close> answers to the builder.\<close>

record localDate =
  getFullYear :: int
  getMonth :: int
  getDate :: int
  getHours :: int
  getMinutes :: int
  getSeconds :: int

text \<open>
  The order document. A field the builder tests against \<open>null\<close> or for truthiness is an
  option; \<open>distanceKm\<close> is held as the text the template literal prints for it.
\<close>

record document =
  orderId :: int
  displayCode :: "jsstring option"
  paidAt :: localDate
  deliveryHour :: "int option"
  deliveryMinute :: "int option"
  buyerName :: jsstring
  phone :: jsstring
  items :: "lineItem list"
  totalProductAmount :: int
  deliveryFee :: int
  distanceKm :: jsstring
  address1 :: jsstring
  address2 :: "jsstring option"
  scheduledDeliveryHour :: "int option"
  scheduledDeliveryMinute :: "int option"

text \<open>
  \<open>String(x).padStart(2, '0')\<close> for a number that may be absent. An absent value prints
  as \<open>null\<close>; the builder uses such a text only behind a test that the value is present.
\<close>

definition stringOf :: "int option \<Rightarrow> jsstring" where
  "stringOf x = (case x of None \<Rightarrow> js ''null'' | Some n \<Rightarrow> numberToString n)"

definition pad2 :: "int option \<Rightarrow> jsstring" where
  "pad2 x = padStart (stringOf x) 2 0x30"

definition isScheduled :: "document \<Rightarrow> bool" where
  "isScheduled d = (scheduledDeliveryHour d \<noteq> None)"

definition orderDate :: "document \<Rightarrow> jsstring" where
  "orderDate d =
     (let t = paidAt d in
      numberToString (getFullYear t) @ js ''-'' @ pad2 (Some (getMonth t + 1)) @ js ''-''
        @ pad2 (Some (getDate t)) @ js '' '' @ pad2 (Some (getHours t)) @ js '':''
        @ pad2 (Some (getMinutes t)) @ js '':'' @ pad2 (Some (getSeconds t)))"

definition deliveryTime :: "document \<Rightarrow> jsstring" where
  "deliveryTime d = pad2 (deliveryHour d) @ js '':'' @ pad2 (deliveryMinute d)"

definition totalAmount :: "document \<Rightarrow> int" where
  "totalAmount d = totalProductAmount d + deliveryFee d"

text \<open>\<open>scheduledDeliveryMinute ?? 0\<close> puts 0 for an absent minute.\<close>

definition scheduledTime :: "document \<Rightarrow> jsstring option" where
  "scheduledTime d =
     (if isScheduled d
      then Some (pad2 (scheduledDeliveryHour d) @ js '':''
                 @ pad2 (Some (case scheduledDeliveryMinute d of None \<Rightarrow> 0 | Some m \<Rightarrow> m)))
      else None)"

text \<open>A string or \<open>null\<close> inside a template literal.\<close>

definition templateText :: "jsstring option \<Rightarrow> jsstring" where
  "templateText t = (case t of None \<Rightarrow> js ''null'' | Some x \<Rightarrow> x)"

text \<open>The store name, four syllables and \<open>1995\<close>.\<close>

definition storeName :: jsstring where
  "storeName = [0xACFC, 0xC77C, 0xB9DB, 0xC9D1, 0x31, 0x39, 0x39, 0x35]"

definition headerBlock :: "command list" where
  "headerBlock =
     [AlignCenter, DrawLine, SetTextQuadArea, Bold True, Println storeName,
      Bold False, SetTextNormal, AlignLeft, DrawLine]"

text \<open>The banner text: two asterisks, the time, the word for a scheduled delivery.\<close>

definition bannerText :: "jsstring \<Rightarrow> jsstring" where
  "bannerText t = js ''** '' @ t @ [0x20, 0xC608, 0xC57D, 0xBC30, 0xB2EC, 0x20, 0x2A, 0x2A]"

definition scheduledBlock :: "document \<Rightarrow> command list" where
  "scheduledBlock d =
     (if isScheduled d
      then [AlignCenter, SetTextDoubleHeight, Bold True,
            Println (bannerText (templateText (scheduledTime d))),
            Bold False, SetTextNormal, AlignLeft]
      else [])"

text \<open>\<open>displayCode || `#${orderId}`\<close>: an absent or empty display code is falsy.\<close>

definition orderLabel :: "document \<Rightarrow> jsstring" where
  "orderLabel d =
     (case displayCode d of
        Some c \<Rightarrow> if c = [] then js ''#'' @ numberToString (orderId d) else c
      | None \<Rightarrow> js ''#'' @ numberToString (orderId d))"

text \<open>The labels of the order block: section title, payment time, arrival, delivery.\<close>

definition orderInfoTitle :: jsstring where
  "orderInfoTitle = [0x5B, 0xC8FC, 0xBB38, 0xC815, 0xBCF4, 0x5D]"

definition paidAtLabel :: jsstring where
  "paidAtLabel = [0xC8FC, 0xBB38, 0xC77C, 0xC2DC, 0x3A, 0x20]"

definition arrivalLabel :: jsstring where
  "arrivalLabel = [0xB3C4, 0xCC29, 0xC608, 0xC815, 0x3A, 0x20]"

definition deliveryLabel :: jsstring where
  "deliveryLabel = [0xBC30, 0xB2EC, 0xC608, 0xC815, 0x3A, 0x20]"

text \<open>The line that follows the payment time: arrival, plain delivery time, or nothing.\<close>

definition deliveryLine :: "document \<Rightarrow> command list" where
  "deliveryLine d =
     (if isScheduled d
      then [Bold True, Println (arrivalLabel @ templateText (scheduledTime d)), Bold False]
      else if deliveryHour d \<noteq> None \<and> deliveryMinute d \<noteq> None
      then [Bold True, Println (deliveryLabel @ deliveryTime d), Bold False]
      else [])"

definition dashLine :: jsstring where
  "dashLine = replicate 32 0x2D"

definition orderInfoBlock :: "document \<Rightarrow> command list" where
  "orderInfoBlock d =
     [Println orderInfoTitle, SetTextDoubleHeight, Bold True, Println (orderLabel d),
      Bold False, SetTextNormal, Println (paidAtLabel @ orderDate d)]
     @ deliveryLine d @ [Println dashLine]"

definition customerTitle :: jsstring where
  "customerTitle = [0x5B, 0xACE0, 0xAC1D, 0xC815, 0xBCF4, 0x5D]"

definition customerBlock :: "document \<Rightarrow> command list" where
  "customerBlock d =
     [Println customerTitle, SetTextDoubleHeight, Bold True,
      Println (buyerName d @ js '' / '' @ phone d), Bold False, SetTextNormal, NewLine]"

definition addressTitle :: jsstring where
  "addressTitle = [0x5B, 0xBC30, 0xB2EC, 0xC8FC, 0xC18C, 0x5D]"

definition addressBlock :: "document \<Rightarrow> command list" where
  "addressBlock d =
     [Println addressTitle, SetTextDoubleHeight, Bold True, Println (address1 d)]
     @ (case address2 d of
          Some a \<Rightarrow> if a = [] then [] else [Println a]
        | None \<Rightarrow> [])
     @ [Bold False, SetTextNormal, Println dashLine]"

subsection \<open>The item table\<close>

definition unitPrice :: "lineItem \<Rightarrow> jsnum" where
  "unitPrice item = divide_js (amount item) (quantity item)"

definition nameMaxWidth :: nat where
  "nameMaxWidth = 14"

definition truncatedName :: "lineItem \<Rightarrow> jsstring" where
  "truncatedName item =
     (if actualWidth (productName item) > nameMaxWidth
      then take 7 (productName item)
      else productName item)"

definition nameField :: "lineItem \<Rightarrow> jsstring" where
  "nameField item =
     (let namePadding = 14 - int (actualWidth (truncatedName item))
      in truncatedName item @ spaces (nat (max 0 namePadding)))"

definition qtyField :: "lineItem \<Rightarrow> jsstring" where
  "qtyField item = padStart (numberToString (quantity item)) 3 0x20"

definition unitField :: "(jsnum \<Rightarrow> jsstring) \<Rightarrow> lineItem \<Rightarrow> jsstring" where
  "unitField platform item = padStart (localeNumber platform (unitPrice item)) 7 0x20"

definition amtField :: "lineItem \<Rightarrow> jsstring" where
  "amtField item = padStart (toLocaleString (amount item)) 8 0x20"

definition itemRow :: "(jsnum \<Rightarrow> jsstring) \<Rightarrow> lineItem \<Rightarrow> command" where
  "itemRow platform item =
     Println (nameField item @ qtyField item @ unitField platform item @ amtField item)"

text \<open>The column titles: name, quantity, price, total.\<close>

definition itemHeader :: jsstring where
  "itemHeader =
     [0xC0C1, 0xD488, 0xBA85, 0x20, 0x20, 0x20, 0x20, 0x20, 0x20, 0x20, 0xC218, 0xB7C9,
      0x20, 0x20, 0x20, 0xAC00, 0xACA9, 0x20, 0x20, 0x20, 0x20, 0xCD1D, 0xD569]"

definition itemsBlock :: "(jsnum \<Rightarrow> jsstring) \<Rightarrow> document \<Rightarrow> command list" where
  "itemsBlock platform d =
     Println itemHeader # map (itemRow platform) (items d) @ [Println dashLine]"

subsection \<open>The totals\<close>

definition subtotalLabel :: jsstring where
  "subtotalLabel = [0xC0C1, 0xD488, 0xD569, 0xACC4, 0x3A]"

definition feeLabel :: "document \<Rightarrow> jsstring" where
  "feeLabel d = [0xBC30, 0xB2EC, 0xBE44, 0x28] @ distanceKm d @ js ''km):''"

definition totalLabel :: jsstring where
  "totalLabel = [0xD569, 0xACC4, 0x3A]"

definition totalsBlock :: "document \<Rightarrow> command list" where
  "totalsBlock d =
     [Bold True,
      Println (formatRow subtotalLabel (formatAmount (totalProductAmount d)) 32),
      Println (formatRow (feeLabel d) (formatAmount (deliveryFee d)) 32),
      Bold False, DrawLine,
      AlignCenter, SetTextQuadArea, Bold True,
      Println (formatRow totalLabel (formatAmount (totalAmount d)) 16),
      Bold False, SetTextNormal, AlignLeft, DrawLine]"

definition trailerBlock :: "command list" where
  "trailerBlock = [NewLine, NewLine, NewLine, Cut]"

text \<open>\<open>buildReceipt(printer, data)\<close> appends its calls to those the printer already holds.\<close>

definition buildReceipt ::
  "(jsnum \<Rightarrow> jsstring) \<Rightarrow> command list \<Rightarrow> document \<Rightarrow> command list" where
  "buildReceipt platform printer d =
     printer @ headerBlock @ scheduledBlock d @ orderInfoBlock d @ customerBlock d
       @ addressBlock d @ itemsBlock platform d @ totalsBlock d @ trailerBlock"

subsection \<open>The documents the builder receives (the print route)\<close>


subsection \<open>Example documents\<close>

text \<open>
  The item of the specification's scenario (four syllables, quantity 2, amount 20000), an
  item with a long ASCII name, and an order paid at the time the source's comment shows.
\<close>

definition appleSet :: lineItem where
  "appleSet = \<lparr>productName = [0xC0AC, 0xACFC, 0xC138, 0xD2B8], quantity = 2, amount = 20000\<rparr>"


definition sampleOrder :: document where
  "sampleOrder =
     \<lparr>orderId = 1042, displayCode = None,
      paidAt = \<lparr>getFullYear = 2026, getMonth = 1, getDate = 12,
                getHours = 2, getMinutes = 8, getSeconds = 3\<rparr>,
      deliveryHour = Some 18, deliveryMinute = Some 30,
      buyerName = js ''Kim'', phone = js ''010-1234-5678'',
      items = [appleSet], totalProductAmount = 20000, deliveryFee = 3000,
      distanceKm = js ''1.2'', address1 = js ''12 Market Street'', address2 = None,
      scheduledDeliveryHour = None, scheduledDeliveryMinute = None\<rparr>"

text \<open>A number formatter that prints a question mark for anything but an integer.\<close>

definition examplePlatform :: "jsnum \<Rightarrow> jsstring" where
  "examplePlatform x = js ''?''"


definition midnightOrder :: document where
  "midnightOrder = sampleOrder\<lparr>scheduledDeliveryHour := Some 0\<rparr>"

definition morningOrder :: document where
  "morningOrder = sampleOrder\<lparr>scheduledDeliveryHour := Some 9\<rparr>"

section \<open>Device transport (printer.js, spooler variant)\<close>

text \<open>
  The module keeps the singleton and the discovered device name in module variables and
  works on the file system; \<open>world\<close> holds them. \<open>printerInstance\<close> is the interface path
  the singleton was built with. \<open>submissions\<close> records the command lines handed to the
  spooler submission, oldest first, so that a theorem can speak of what was submitted.
  A file holds the print script, a staged buffer, or what a failed write left of it.
\<close>

type_synonym bytes = "8 word list"

datatype content = RawPrintScript | Staged bytes | Incomplete

datatype jsError = Error jsstring

datatype execResult = Returned | Threw jsstring

record world =
  printerInstance :: "jsstring option"
  sewooPrinterName :: "jsstring option"
  rawPrintScriptPath :: "jsstring option"
  files :: "jsstring \<Rightarrow> content option"
  submissions :: "jsstring list"

text \<open>
  What the host answers. \<open>tmpFile n\<close> is \<open>join(tmpdir(), n)\<close> and \<open>dateNow\<close> is
  \<open>Date.now()\<close>. \<open>execSync\<close> is the outcome of running a command line on the current
  files: it returns, or throws an error with a message (nonzero exit, timeout, spawn
  failure). \<open>writeFails p\<close> is \<open>None\<close> when the host lets \<open>p\<close> be written; otherwise it
  holds the message of the error and whether an incomplete file is left at \<open>p\<close>.
  \<open>unlinkFails p\<close> is \<open>None\<close> when the host lets \<open>p\<close> be removed, otherwise the message of
  the error (a file that is busy, a missing permission).
\<close>

record env =
  tmpFile :: "jsstring \<Rightarrow> jsstring"
  dateNow :: int
  execSync :: "(jsstring \<Rightarrow> content option) \<Rightarrow> jsstring \<Rightarrow> execResult"
  writeFails :: "jsstring \<Rightarrow> (jsstring \<times> bool) option"
  unlinkFails :: "jsstring \<Rightarrow> jsstring option"

text \<open>
  \<open>initPrinter()\<close>. Its first two arguments are the answers of \<open>findPrinterPort()\<close> and
  \<open>findPrinterName()\<close>, each \<open>None\<close> for \<open>null\<close>. The interface path is two backslashes, a
  dot, a backslash and the port.
\<close>

definition initPrinter ::
  "jsstring option \<Rightarrow> jsstring option \<Rightarrow> world \<Rightarrow> jsstring \<times> world" where
  "initPrinter port name w =
     (case printerInstance w of
        Some inst \<Rightarrow> (inst, w)
      | None \<Rightarrow>
          let interfacePath =
                [0x5C, 0x5C, 0x2E, 0x5C]
                @ (case port of
                     Some p \<Rightarrow> if p = [] then js ''LPT1'' else p
                   | None \<Rightarrow> js ''LPT1'')
          in (interfacePath,
              w\<lparr>sewooPrinterName := name, printerInstance := Some interfacePath\<rparr>))"

definition closePrinter :: "world \<Rightarrow> world" where
  "closePrinter w = w\<lparr>printerInstance := None\<rparr>"

text \<open>
  \<open>writeFileSync\<close> gives the error it throws, if any, and the files afterwards: the new
  content on success; on failure the files as they were, or an incomplete file.
\<close>

definition writeFileSync ::
  "env \<Rightarrow> jsstring \<Rightarrow> content \<Rightarrow> (jsstring \<Rightarrow> content option)
     \<Rightarrow> jsError option \<times> (jsstring \<Rightarrow> content option)" where
  "writeFileSync e p c fs =
     (case writeFails e p of
        None \<Rightarrow> (None, fs(p \<mapsto> c))
      | Some (msg, left) \<Rightarrow> (Some (Error msg), if left then fs(p \<mapsto> Incomplete) else fs))"

text \<open>
  \<open>ensureRawPrintScript()\<close> gives the error thrown by its write, if any, the script path
  and the world afterwards. The path variable is assigned before the write.
\<close>

definition ensureRawPrintScript ::
  "env \<Rightarrow> world \<Rightarrow> jsError option \<times> jsstring \<times> world" where
  "ensureRawPrintScript e w =
     (let fresh = tmpFile e (js ''onuljang-raw-print.ps1'');
          (err, fs) = writeFileSync e fresh RawPrintScript (files w);
          written = w\<lparr>rawPrintScriptPath := Some fresh, files := fs\<rparr>
      in case rawPrintScriptPath w of
           Some p \<Rightarrow>
             if p \<noteq> [] \<and> files w p \<noteq> None then (None, p, w) else (err, fresh, written)
         | None \<Rightarrow> (err, fresh, written))"

text \<open>\<open>sewooPrinterName || 'SEWOO SLK-TS 100'\<close>\<close>

definition printerName :: "world \<Rightarrow> jsstring" where
  "printerName w =
     (case sewooPrinterName w of
        Some n \<Rightarrow> if n = [] then js ''SEWOO SLK-TS 100'' else n
      | None \<Rightarrow> js ''SEWOO SLK-TS 100'')"

definition tmpBin :: "env \<Rightarrow> jsstring" where
  "tmpBin e = tmpFile e (js ''receipt-'' @ numberToString (dateNow e) @ js ''.bin'')"

text \<open>The command line of the submission; \<open>0x22\<close> is the double quote.\<close>

definition spoolCommand :: "jsstring \<Rightarrow> jsstring \<Rightarrow> jsstring \<Rightarrow> jsstring" where
  "spoolCommand scriptPath bin name =
     js ''powershell -ExecutionPolicy Bypass -File '' @ [0x22] @ scriptPath @ [0x22]
     @ js '' -FilePath '' @ [0x22] @ bin @ [0x22]
     @ js '' -PrinterName '' @ [0x22] @ name @ [0x22]"

text \<open>
  \<open>unlinkSync\<close> removes a file; it throws when there is none and when the host refuses.
  The \<open>finally\<close> block of \<open>printReceipt\<close> swallows whatever it throws.
\<close>

definition unlinkSync ::
  "env \<Rightarrow> jsstring \<Rightarrow> (jsstring \<Rightarrow> content option)
     \<Rightarrow> jsError + (jsstring \<Rightarrow> content option)" where
  "unlinkSync e p fs =
     (if fs p = None then Inl (Error (js ''ENOENT''))
      else case unlinkFails e p of
             Some msg \<Rightarrow> Inl (Error msg)
           | None \<Rightarrow> Inr (fs(p := None)))"

definition cleanup :: "env \<Rightarrow> jsstring \<Rightarrow> world \<Rightarrow> world" where
  "cleanup e p w =
     (case unlinkSync e p (files w) of Inl err \<Rightarrow> w | Inr fs \<Rightarrow> w\<lparr>files := fs\<rparr>)"

text \<open>
  The statements of \<open>printReceipt\<close> before its \<open>try\<close>: the script is put in place and the
  buffer is written to \<open>tmpBin\<close>. The result is the error thrown on the way, if any, and
  the world at that point.
\<close>

definition stage :: "env \<Rightarrow> bytes \<Rightarrow> world \<Rightarrow> jsError option \<times> world" where
  "stage e buf w =
     (case ensureRawPrintScript e w of
        (Some err, scriptPath, w1) \<Rightarrow> (Some err, w1)
      | (None, scriptPath, w1) \<Rightarrow>
          (case writeFileSync e (tmpBin e) (Staged buf) (files w1) of
             (err, fs) \<Rightarrow> (err, w1\<lparr>files := fs\<rparr>)))"

definition submitted :: "env \<Rightarrow> world \<Rightarrow> jsstring" where
  "submitted e w =
     spoolCommand (fst (snd (ensureRawPrintScript e w))) (tmpBin e) (printerName w)"

text \<open>The outcome of the attempt's call of \<open>execSync\<close>, \<open>None\<close> when it is not reached.\<close>

definition submission :: "env \<Rightarrow> bytes \<Rightarrow> world \<Rightarrow> execResult option" where
  "submission e buf w =
     (case stage e buf w of
        (Some err, w2) \<Rightarrow> None
      | (None, w2) \<Rightarrow> Some (execSync e (files w2) (submitted e w)))"

text \<open>The two messages: nothing to print, and the prefix of a printing failure.\<close>

definition noDataMessage :: jsstring where
  "noDataMessage =
     [0xCD9C, 0xB825, 0xD560, 0x20, 0xB370, 0xC774, 0xD130, 0xAC00, 0x20, 0xC5C6, 0xC2B5,
      0xB2C8, 0xB2E4]"

definition errPrefix :: jsstring where
  "errPrefix =
     [0xD504, 0xB9B0, 0xD130, 0x20, 0xCD9C, 0xB825, 0x20, 0xC624, 0xB958, 0x3A, 0x20]"

text \<open>
  \<open>printReceipt(printer)\<close>. The printer is given by what \<open>getBuffer()\<close> returns, \<open>None\<close>
  for \<open>null\<close>; \<open>clear()\<close> sets it to \<open>None\<close>. The result is the thrown error or normal
  completion, the printer afterwards, and the world afterwards. An error thrown before
  the \<open>try\<close> leaves the function as it is, without the cleanup of the \<open>finally\<close> block.
\<close>

definition printReceipt ::
  "env \<Rightarrow> bytes option \<Rightarrow> world \<Rightarrow> (jsError + unit) \<times> bytes option \<times> world" where
  "printReceipt e printer w =
     (case printer of
        None \<Rightarrow> (Inl (Error noDataMessage), printer, w)
      | Some buf \<Rightarrow>
          (case stage e buf w of
             (Some err, w2) \<Rightarrow> (Inl err, printer, w2)
           | (None, w2) \<Rightarrow>
               let w3 = w2\<lparr>submissions := submissions w @ [submitted e w]\<rparr>
               in case execSync e (files w2) (submitted e w) of
                    Returned \<Rightarrow> (Inr (), None, cleanup e (tmpBin e) w3)
                  | Threw msg \<Rightarrow>
                      (Inl (Error (errPrefix @ msg)), printer, cleanup e (tmpBin e) w3)))"

subsection \<open>Example hosts\<close>

text \<open>
  A world in which nothing has been initialised and no file exists, and four hosts. The
  first accepts every submission and the second fails each with the same message, both
  on a file system that does what it is asked. The third accepts every submission but
  refuses to remove files; the fourth cannot write the staged buffer and leaves an
  incomplete file.
\<close>

definition freshWorld :: world where
  "freshWorld =
     \<lparr>printerInstance = None, sewooPrinterName = None, rawPrintScriptPath = None,
      files = (\<lambda>p. None), submissions = []\<rparr>"

definition acceptingHost :: env where
  "acceptingHost =
     \<lparr>tmpFile = (\<lambda>n. js ''C:/Temp/'' @ n), dateNow = 1770829683000,
      execSync = (\<lambda>fs cmd. Returned),
      writeFails = (\<lambda>p. None), unlinkFails = (\<lambda>p. None)\<rparr>"

definition rejectingHost :: env where
  "rejectingHost =
     \<lparr>tmpFile = (\<lambda>n. js ''C:/Temp/'' @ n), dateNow = 1770829683000,
      execSync = (\<lambda>fs cmd. Threw (js ''Command failed'')),
      writeFails = (\<lambda>p. None), unlinkFails = (\<lambda>p. None)\<rparr>"

definition lockingHost :: env where
  "lockingHost = acceptingHost\<lparr>unlinkFails := (\<lambda>p. Some (js ''EBUSY''))\<rparr>"

definition fullDiskHost :: env where
  "fullDiskHost =
     acceptingHost
       \<lparr>writeFails :=
          (\<lambda>p. if p = js ''C:/Temp/receipt-1770829683000.bin''
                then Some (js ''ENOSPC'', True) else None)\<rparr>"

section \<open>Properties of the layout engine\<close>

lemma replicate_numeral_unfold: "replicate (numeral k) x = x # replicate (pred_numeral k) x"
  by (simp add: numeral_eq_Suc)

lemma isKorean_space: "\<not> isKorean 0x20"
  by (simp add: isKorean_def)

lemma koreanCount_append: "koreanCount (a @ b) = koreanCount a + koreanCount b"
  by (simp add: koreanCount_def)

lemma koreanCount_spaces: "koreanCount (spaces n) = 0"
  by (simp add: koreanCount_def spaces_def isKorean_space)

lemma actualWidth_append: "actualWidth (a @ b) = actualWidth a + actualWidth b"
  by (simp add: actualWidth_def koreanCount_append)

lemma actualWidth_spaces: "actualWidth (spaces n) = n"
  by (simp add: actualWidth_def koreanCount_spaces) (simp add: spaces_def)

lemma spaces_zero: "spaces 0 = []"
  by (simp add: spaces_def)

lemma length_spaces: "length (spaces n) = n"
  by (simp add: spaces_def)

lemma js_center_neq_right: "js ''center'' \<noteq> js ''right''"
  by (simp add: js_def)

lemmas width_eval =
  actualWidth_def koreanCount_def isKorean_def spaces_def js_def replicate_numeral_unfold

lemma cellsOf_unat: "cellsOf (unat u) = (if isKorean u then 2 else 1)"
  by (simp add: cellsOf_def isKorean_def word_le_nat_alt)

text \<open>
  On a string without a surrogate pair every code unit is a code point, and the width the
  code computes is the specification's.
\<close>

lemma visualCells_eq_actualWidth:
  "\<not> hasSurrogatePair s \<Longrightarrow> visualCells s = actualWidth s"
proof (induction s rule: codePoints.induct)
  case 1
  then show ?case
    by (simp add: visualCells_def actualWidth_def koreanCount_def)
next
  case (2 u)
  then show ?case
    by (simp add: visualCells_def actualWidth_def koreanCount_def cellsOf_unat)
next
  case (3 h l us)
  from "3.prems" have nopair: "\<not> (isHighSurrogate h \<and> isLowSurrogate l)"
    and rest: "\<not> hasSurrogatePair (l # us)"
    by simp_all
  from "3.IH"(2) [OF nopair rest] have "visualCells (l # us) = actualWidth (l # us)" .
  moreover have "codePoints (h # l # us) = unat h # codePoints (l # us)"
    using nopair by auto
  ultimately show ?case
    by (simp add: visualCells_def actualWidth_def koreanCount_def cellsOf_unat)
qed

text \<open>
  C1. With the width of a string counted per UTF-16 code unit (a unit in AC00..D7A3 two
  cells, any other unit one cell), \<open>alignText\<close> turns a text below the width budget into
  a string of exactly \<open>width\<close> cells: for \<open>center\<close> the text stands between \<open>l\<close> spaces on
  the left and \<open>r\<close> on the right, where \<open>l + r\<close> is the remainder and \<open>r\<close> is \<open>l\<close> or
  \<open>l + 1\<close>; for \<open>right\<close> all the spaces come before the text; for any other mode they
  come after it. A text at or above the budget is returned unchanged.
\<close>

theorem alignText_fills_width:
  "(int (actualWidth text) < width \<longrightarrow>
      int (actualWidth (alignText text align width)) = width
    \<and> (align = js ''center'' \<longrightarrow>
          (\<exists>l r. alignText text align width = spaces l @ text @ spaces r
                \<and> int (l + r) = width - int (actualWidth text) \<and> l \<le> r \<and> r \<le> l + 1))
    \<and> (align = js ''right'' \<longrightarrow>
          alignText text align width = spaces (nat (width - int (actualWidth text))) @ text)
    \<and> (align \<noteq> js ''center'' \<and> align \<noteq> js ''right'' \<longrightarrow>
          alignText text align width = text @ spaces (nat (width - int (actualWidth text)))))
   \<and> (width \<le> int (actualWidth text) \<longrightarrow> alignText text align width = text)"
proof (cases "width \<le> int (actualWidth text)")
  case True
  then show ?thesis by (simp add: alignText_def)
next
  case False
  define p where "p = nat (width - int (actualWidth text))"
  have p: "int p = width - int (actualWidth text)"
    using False by (simp add: p_def)
  have c: "alignText text (js ''center'') width = spaces (p div 2) @ text @ spaces (p - p div 2)"
    using False by (simp add: alignText_def Let_def p_def)
  have r: "alignText text (js ''right'') width = spaces p @ text"
    using False js_center_neq_right by (simp add: alignText_def Let_def p_def)
  have l: "alignText text align width = text @ spaces p"
    if "align \<noteq> js ''center''" "align \<noteq> js ''right''"
    using False that by (simp add: alignText_def Let_def p_def)
  have w: "int (actualWidth (alignText text align width)) = width"
  proof -
    have "actualWidth (alignText text align width) = actualWidth text + p"
      using c r l by (cases "align = js ''center''"; cases "align = js ''right''")
        (simp_all add: actualWidth_append actualWidth_spaces)
    then show ?thesis using p by simp
  qed
  have halves: "int (p div 2 + (p - p div 2)) = width - int (actualWidth text)
      \<and> p div 2 \<le> p - p div 2 \<and> p - p div 2 \<le> p div 2 + 1"
    using p by (simp flip: p) arith
  have ex: "\<exists>l r. alignText text (js ''center'') width = spaces l @ text @ spaces r
                \<and> int (l + r) = width - int (actualWidth text) \<and> l \<le> r \<and> r \<le> l + 1"
    using c halves by blast
  show ?thesis
    using False r l w ex unfolding p_def by auto
qed

theorem alignText_fills_width_witness:
  "int (actualWidth [0xACFC]) < 5
   \<and> int (actualWidth (alignText [0xACFC] (js ''center'') 5)) = 5
   \<and> alignText [0xACFC] (js ''center'') 5 = [0x20, 0xACFC, 0x20, 0x20]
   \<and> alignText [0xACFC] (js ''right'') 5 = [0x20, 0x20, 0x20, 0xACFC]
   \<and> alignText [0xACFC] (js ''left'') 5 = [0xACFC, 0x20, 0x20, 0x20]
   \<and> 5 \<le> int (actualWidth (js ''receipt''))
   \<and> alignText (js ''receipt'') (js ''center'') 5 = js ''receipt''"
proof -
  have below: "int (actualWidth [0xACFC]) < 5"
    by (simp add: width_eval)
  have pad: "nat (5 - int (actualWidth [0xACFC])) = 3"
    by (simp add: width_eval)
  have above: "5 \<le> int (actualWidth (js ''receipt''))"
    by (simp add: width_eval)
  have left: "js ''left'' \<noteq> js ''center'' \<and> js ''left'' \<noteq> js ''right''"
    by (simp add: js_def)
  have rest: "(5::int) - int (actualWidth [0xACFC]) = 3"
    by (simp add: width_eval)
  note c = alignText_fills_width [of "[0xACFC]" 5 "js ''center''"]
  note r = alignText_fills_width [of "[0xACFC]" 5 "js ''right''"]
  note l = alignText_fills_width [of "[0xACFC]" 5 "js ''left''"]
  note a = alignText_fills_width [of "js ''receipt''" 5 "js ''center''"]
  have cw: "int (actualWidth (alignText [0xACFC] (js ''center'') 5)) = 5"
    using c below by blast
  have "\<exists>l r. alignText [0xACFC] (js ''center'') 5 = spaces l @ [0xACFC] @ spaces r
         \<and> int (l + r) = 3 \<and> l \<le> r \<and> r \<le> l + 1"
    using c below rest by simp
  then obtain l r where lr: "alignText [0xACFC] (js ''center'') 5 = spaces l @ [0xACFC] @ spaces r"
    and sum: "int (l + r) = 3" and le: "l \<le> r" "r \<le> l + 1"
    by blast
  have "l = 1 \<and> r = 2"
    using sum le by arith
  then have cv: "alignText [0xACFC] (js ''center'') 5 = [0x20, 0xACFC, 0x20, 0x20]"
    using lr by (simp add: spaces_def replicate_numeral_unfold)
  have rv: "alignText [0xACFC] (js ''right'') 5 = [0x20, 0x20, 0x20, 0xACFC]"
    using r below pad by (simp add: spaces_def replicate_numeral_unfold)
  have lv: "alignText [0xACFC] (js ''left'') 5 = [0xACFC, 0x20, 0x20, 0x20]"
    using l below pad left by (simp add: spaces_def replicate_numeral_unfold)
  have av: "alignText (js ''receipt'') (js ''center'') 5 = js ''receipt''"
    using a above by blast
  show ?thesis
    using below above cw cv rv lv av by blast
qed

text \<open>
  Counted per code point, as the specification words it, the rule fails on a character outside
  the Basic Multilingual Plane: U+1F600 is one code point and so one cell, below a budget
  of two, but it is two code units, so \<open>alignText\<close> sees the budget met and adds no space.
\<close>

theorem alignText_code_point_counterexample:
  "int (visualCells [0xD83D, 0xDE00]) < 2
   \<and> alignText [0xD83D, 0xDE00] (js ''left'') 2 = [0xD83D, 0xDE00]
   \<and> int (visualCells (alignText [0xD83D, 0xDE00] (js ''left'') 2)) \<noteq> 2"
  by (simp add: alignText_def width_eval visualCells_def cellsOf_def
      isHighSurrogate_def isLowSurrogate_def)

lemma digit_not_korean: "d < 10 \<Longrightarrow> \<not> isKorean (of_nat (48 + d))"
proof -
  assume "d < 10"
  then have "d \<in> {0, 1, 2, 3, 4, 5, 6, 7, 8, 9}"
    by auto
  then show ?thesis
    by (auto simp: isKorean_def)
qed

lemma koreanCount_Cons: "koreanCount (u # s) = (if isKorean u then 1 else 0) + koreanCount s"
  by (simp add: koreanCount_def)

lemma koreanCount_decimalDigits: "koreanCount (decimalDigits n) = 0"
proof (induction n rule: decimalDigits.induct)
  case (1 n)
  have last: "\<not> isKorean (of_nat (48 + n mod 10))"
    by (rule digit_not_korean) simp
  show ?case
  proof (cases "n < 10")
    case True
    then have "decimalDigits n = [of_nat (48 + n)]"
      by (subst decimalDigits.simps) simp
    then show ?thesis
      using digit_not_korean [OF True] by (simp only: koreanCount_Cons) (simp add: koreanCount_def)
  next
    case False
    then have "decimalDigits n = decimalDigits (n div 10) @ [of_nat (48 + n mod 10)]"
      by (subst decimalDigits.simps) simp
    then show ?thesis
      using 1 [OF False] last
      by (simp only: koreanCount_append koreanCount_Cons) (simp add: koreanCount_def)
  qed
qed

lemma koreanCount_padStart_zero: "koreanCount (padStart s n 0x30) = koreanCount s"
  by (simp add: padStart_def koreanCount_def isKorean_def)

lemma koreanCount_groupDigits: "koreanCount (groupDigits n) = 0"
proof (induction n rule: groupDigits.induct)
  case (1 n)
  show ?case
  proof (cases "n < 1000")
    case True
    then show ?thesis
      by (subst groupDigits.simps) (simp add: koreanCount_decimalDigits)
  next
    case False
    have comma: "\<not> isKorean 0x2C"
      by (simp add: isKorean_def)
    have "groupDigits n =
        groupDigits (n div 1000) @ 0x2C # padStart (decimalDigits (n mod 1000)) 3 0x30"
      using False by (subst groupDigits.simps) simp
    then show ?thesis
      using 1 [OF False] comma
      by (simp add: koreanCount_append koreanCount_Cons koreanCount_padStart_zero
          koreanCount_decimalDigits)
  qed
qed

lemma koreanCount_toLocaleString: "koreanCount (toLocaleString i) = 0"
  using koreanCount_groupDigits
  by (simp add: toLocaleString_def) (simp add: koreanCount_def isKorean_def)

lemmas number_eval =
  toLocaleString_def numberToString_def groupDigits.simps decimalDigits.simps padStart_def

text \<open>
  C8. With the width of a string counted per UTF-16 code unit (a unit in AC00..D7A3 two
  cells, any other unit one cell): when label and value together are below \<open>width\<close>,
  \<open>formatRow\<close> returns label, a gutter of spaces and value, of exactly \<open>width\<close> cells in
  all; when they are at or above \<open>width\<close> it returns label and value concatenated, with
  no gutter.
\<close>

theorem formatRow_fills_width:
  "(int (actualWidth label) + int (actualWidth val) < width \<longrightarrow>
      int (actualWidth (formatRow label val width)) = width
    \<and> formatRow label val width =
        label @ spaces (nat (width - int (actualWidth label) - int (actualWidth val))) @ val)
   \<and> (width \<le> int (actualWidth label) + int (actualWidth val) \<longrightarrow>
        formatRow label val width = label @ val)"
  by (auto simp: formatRow_def Let_def actualWidth_append actualWidth_spaces spaces_zero)

theorem formatRow_fills_width_witness:
  "int (actualWidth totalLabel) + int (actualWidth (js ''13,000'')) < 16
   \<and> int (actualWidth (formatRow totalLabel (js ''13,000'') 16)) = 16
   \<and> formatRow totalLabel (js ''13,000'') 16 = totalLabel @ spaces 5 @ js ''13,000''
   \<and> 8 \<le> int (actualWidth totalLabel) + int (actualWidth (js ''13,000''))
   \<and> formatRow totalLabel (js ''13,000'') 8 = totalLabel @ js ''13,000''"
proof -
  have below: "int (actualWidth totalLabel) + int (actualWidth (js ''13,000'')) < 16"
    by (simp add: totalLabel_def width_eval)
  have gap: "nat (16 - int (actualWidth totalLabel) - int (actualWidth (js ''13,000''))) = 5"
    by (simp add: totalLabel_def width_eval)
  have above: "8 \<le> int (actualWidth totalLabel) + int (actualWidth (js ''13,000''))"
    by (simp add: totalLabel_def width_eval)
  note wide = formatRow_fills_width [of totalLabel "js ''13,000''" 16]
  note narrow = formatRow_fills_width [of totalLabel "js ''13,000''" 8]
  have w: "int (actualWidth (formatRow totalLabel (js ''13,000'') 16)) = 16"
    using wide below by blast
  have "formatRow totalLabel (js ''13,000'') 16 =
      totalLabel @ spaces (nat (16 - int (actualWidth totalLabel)
        - int (actualWidth (js ''13,000'')))) @ js ''13,000''"
    using wide below by blast
  then have v: "formatRow totalLabel (js ''13,000'') 16 = totalLabel @ spaces 5 @ js ''13,000''"
    by (simp only: gap)
  have n: "formatRow totalLabel (js ''13,000'') 8 = totalLabel @ js ''13,000''"
    using narrow above by blast
  show ?thesis
    using below above w v n by blast
qed

text \<open>
  Counted per code point the rule fails on a label outside the Basic Multilingual Plane:
  U+1F34E is one code point, so label and value take six cells of a budget of eight, but
  \<open>formatRow\<close> counts the label's two code units and inserts one space instead of two.
\<close>

theorem formatRow_code_point_counterexample:
  "int (visualCells [0xD83C, 0xDF4E]) + int (visualCells (js ''1,000'')) < 8
   \<and> formatRow [0xD83C, 0xDF4E] (js ''1,000'') 8 = [0xD83C, 0xDF4E, 0x20] @ js ''1,000''
   \<and> int (visualCells (formatRow [0xD83C, 0xDF4E] (js ''1,000'') 8)) \<noteq> 8"
  by (simp add: formatRow_def width_eval visualCells_def cellsOf_def
      isHighSurrogate_def isLowSurrogate_def)

text \<open>
  C9. \<open>formatPrice\<close> pads by the plain length of the formatted string, in which the
  currency suffix is one character. The width rule of \<open>alignText\<close> and \<open>formatRow\<close>
  counts the suffix as two cells, because it is the syllable U+C6D0 inside AC00..D7A3,
  and every character that \<open>toLocaleString\<close> produced before it as one cell: a formatted
  amount is one cell wider than it is long, and \<open>formatRow\<close> sizes its gutter by that
  width. The two-cell rule applies to the code units of AC00..D7A3 and to no other.
\<close>

theorem currency_suffix_width:
  "formatPrice a width = spaces (nat (width - int (length (formatAmount a)))) @ formatAmount a
   \<and> length (formatAmount a) = length (toLocaleString a) + 1
   \<and> actualWidth (formatAmount a) = length (toLocaleString a) + 2
   \<and> formatRow label (formatAmount a) width =
       label @ spaces (nat (width - int (actualWidth label) - int (length (toLocaleString a)) - 2))
       @ formatAmount a
   \<and> actualWidth [0xC6D0] = 2
   \<and> actualWidth (u # s) = (if 0xAC00 \<le> u \<and> u \<le> 0xD7A3 then 2 else 1) + actualWidth s"
proof -
  have price: "formatPrice a width =
      spaces (nat (width - int (length (formatAmount a)))) @ formatAmount a"
    by (simp add: formatPrice_def Let_def max_def spaces_zero)
  have len: "length (formatAmount a) = length (toLocaleString a) + 1"
    by (simp add: formatAmount_def)
  have wide: "actualWidth (formatAmount a) = length (toLocaleString a) + 2"
    by (simp add: formatAmount_def actualWidth_def koreanCount_append koreanCount_toLocaleString)
      (simp add: koreanCount_def isKorean_def)
  have row: "formatRow label (formatAmount a) width =
       label @ spaces (nat (width - int (actualWidth label) - int (length (toLocaleString a)) - 2))
       @ formatAmount a"
  proof -
    have "width - int (actualWidth label) - int (actualWidth (formatAmount a))
        = width - int (actualWidth label) - int (length (toLocaleString a)) - 2"
      by (simp add: wide)
    then show ?thesis
      by (simp only: formatRow_def Let_def) (simp add: max_def spaces_zero)
  qed
  have suffix: "actualWidth [0xC6D0] = 2"
    by (simp add: actualWidth_def koreanCount_def isKorean_def)
  have rule: "actualWidth (u # s) = (if 0xAC00 \<le> u \<and> u \<le> 0xD7A3 then 2 else 1) + actualWidth s"
    by (simp add: actualWidth_def koreanCount_def isKorean_def)
  show ?thesis
    using price len wide row suffix rule by blast
qed

text \<open>
  The amount 13000 is formatted in seven characters and measured at eight cells, so the
  total row of sixteen cells gets a gutter of three spaces where a one-cell suffix would
  have left four.
\<close>

theorem currency_suffix_counterexample:
  "formatAmount 13000 = js ''13,000'' @ [0xC6D0]
   \<and> length (formatAmount 13000) = 7
   \<and> actualWidth (formatAmount 13000) = 8
   \<and> formatRow totalLabel (formatAmount 13000) 16 = totalLabel @ spaces 3 @ formatAmount 13000
   \<and> actualWidth [0xC6D0] \<noteq> 1"
  by (simp add: formatRow_def formatAmount_def number_eval totalLabel_def width_eval)

section \<open>Properties of the builder\<close>









lemmas time_eval =
  scheduledTime_def isScheduled_def templateText_def pad2_def stringOf_def deliveryTime_def
  numberToString_def decimalDigits.simps padStart_def js_def replicate_numeral_unfold

text \<open>
  C3. The grand total is computed as product subtotal plus delivery fee, the document
  having no field for it; the receipt ends with the centered, quad-sized, emphasized line
  that \<open>formatRow\<close> makes of the total label and the currency formatting of that sum in a
  row of 16 cells, followed by the divider, three line feeds and the cut. The row is the
  label, a run of spaces and the formatted sum.
\<close>

theorem grand_total_computed:
  "totalAmount d = totalProductAmount d + deliveryFee d
   \<and> (\<exists>pre. buildReceipt platform printer d =
         pre @ [AlignCenter, SetTextQuadArea, Bold True,
                Println (formatRow totalLabel
                           (formatAmount (totalProductAmount d + deliveryFee d)) 16),
                Bold False, SetTextNormal, AlignLeft, DrawLine,
                NewLine, NewLine, NewLine, Cut])
   \<and> (\<exists>n. formatRow totalLabel (formatAmount (totalProductAmount d + deliveryFee d)) 16 =
         totalLabel @ spaces n @ formatAmount (totalProductAmount d + deliveryFee d))"
proof -
  let ?tail = "[AlignCenter, SetTextQuadArea, Bold True,
                Println (formatRow totalLabel
                           (formatAmount (totalProductAmount d + deliveryFee d)) 16),
                Bold False, SetTextNormal, AlignLeft, DrawLine,
                NewLine, NewLine, NewLine, Cut]"
  have "totalsBlock d @ trailerBlock =
      [Bold True,
       Println (formatRow subtotalLabel (formatAmount (totalProductAmount d)) 32),
       Println (formatRow (feeLabel d) (formatAmount (deliveryFee d)) 32),
       Bold False, DrawLine] @ ?tail"
    by (simp add: totalsBlock_def trailerBlock_def totalAmount_def)
  then have "buildReceipt platform printer d =
      (printer @ headerBlock @ scheduledBlock d @ orderInfoBlock d @ customerBlock d
        @ addressBlock d @ itemsBlock platform d
        @ [Bold True,
           Println (formatRow subtotalLabel (formatAmount (totalProductAmount d)) 32),
           Println (formatRow (feeLabel d) (formatAmount (deliveryFee d)) 32),
           Bold False, DrawLine]) @ ?tail"
    by (simp add: buildReceipt_def)
  then have tail: "\<exists>pre. buildReceipt platform printer d = pre @ ?tail"
    by blast
  have row: "\<exists>n. formatRow totalLabel (formatAmount (totalProductAmount d + deliveryFee d)) 16 =
         totalLabel @ spaces n @ formatAmount (totalProductAmount d + deliveryFee d)"
    by (simp add: formatRow_def Let_def) blast
  show ?thesis
    using tail row by (simp add: totalAmount_def)
qed

lemma labels_differ: "arrivalLabel @ s \<noteq> deliveryLabel @ t"
  by (simp add: arrivalLabel_def deliveryLabel_def)

lemma scheduledBlock_in_output:
  "set (scheduledBlock d) \<subseteq> set (buildReceipt platform printer d)"
  by (auto simp: buildReceipt_def)

lemma deliveryLine_in_output:
  "set (deliveryLine d) \<subseteq> set (buildReceipt platform printer d)"
  by (auto simp: buildReceipt_def orderInfoBlock_def)



text \<open>
  C10. An order is scheduled exactly when its scheduled delivery hour is present, whatever
  the other fields hold. Hour 0 is scheduled: banner and arrival line are printed with a
  time that starts \<open>00:\<close>. With the hour present and the minute absent the time is the
  padded hour followed by \<open>:00\<close>; hour 9 gives \<open>09:00\<close> in the banner and in the arrival
  line, and no plain delivery line.
\<close>

theorem scheduled_by_hour:
  "isScheduled d = (scheduledDeliveryHour d \<noteq> None)
   \<and> (scheduledDeliveryHour d = Some 0 \<longrightarrow>
        isScheduled d
        \<and> (\<exists>m. scheduledBlock d =
              [AlignCenter, SetTextDoubleHeight, Bold True,
               Println (bannerText (js ''00:'' @ m)), Bold False, SetTextNormal, AlignLeft])
        \<and> (\<exists>m. deliveryLine d = [Bold True, Println (arrivalLabel @ js ''00:'' @ m), Bold False]))
   \<and> (scheduledDeliveryHour d \<noteq> None \<and> scheduledDeliveryMinute d = None \<longrightarrow>
        scheduledTime d = Some (pad2 (scheduledDeliveryHour d) @ js '':00''))
   \<and> (scheduledDeliveryHour d = Some 9 \<and> scheduledDeliveryMinute d = None \<longrightarrow>
        scheduledTime d = Some (js ''09:00'')
        \<and> Println (bannerText (js ''09:00'')) \<in> set (buildReceipt platform printer d)
        \<and> Println (arrivalLabel @ js ''09:00'') \<in> set (buildReceipt platform printer d)
        \<and> (\<forall>t. Println (deliveryLabel @ t) \<notin> set (deliveryLine d)))"
proof -
  have zero: "isScheduled d
        \<and> (\<exists>m. scheduledBlock d =
              [AlignCenter, SetTextDoubleHeight, Bold True,
               Println (bannerText (js ''00:'' @ m)), Bold False, SetTextNormal, AlignLeft])
        \<and> (\<exists>m. deliveryLine d = [Bold True, Println (arrivalLabel @ js ''00:'' @ m), Bold False])"
    if "scheduledDeliveryHour d = Some 0"
  proof -
    have "\<exists>m. scheduledTime d = Some (js ''00:'' @ m)"
      using that by (simp add: time_eval)
    then obtain m where "scheduledTime d = Some (js ''00:'' @ m)" ..
    then have "scheduledBlock d =
              [AlignCenter, SetTextDoubleHeight, Bold True,
               Println (bannerText (js ''00:'' @ m)), Bold False, SetTextNormal, AlignLeft]"
      and "deliveryLine d = [Bold True, Println (arrivalLabel @ js ''00:'' @ m), Bold False]"
      using that by (simp_all add: scheduledBlock_def deliveryLine_def isScheduled_def templateText_def)
    then show ?thesis
      using that by (simp only: isScheduled_def) blast
  qed
  have minute: "scheduledTime d = Some (pad2 (scheduledDeliveryHour d) @ js '':00'')"
    if "scheduledDeliveryHour d \<noteq> None" "scheduledDeliveryMinute d = None"
    using that by (simp add: scheduledTime_def isScheduled_def)
      (simp add: pad2_def stringOf_def numberToString_def decimalDigits.simps padStart_def js_def)
  have nine: "scheduledTime d = Some (js ''09:00'')
        \<and> Println (bannerText (js ''09:00'')) \<in> set (buildReceipt platform printer d)
        \<and> Println (arrivalLabel @ js ''09:00'') \<in> set (buildReceipt platform printer d)
        \<and> (\<forall>t. Println (deliveryLabel @ t) \<notin> set (deliveryLine d))"
    if "scheduledDeliveryHour d = Some 9" "scheduledDeliveryMinute d = None"
  proof -
    have t: "scheduledTime d = Some (js ''09:00'')"
      using that by (simp add: time_eval)
    have "Println (bannerText (js ''09:00'')) \<in> set (scheduledBlock d)"
      using that t by (simp add: scheduledBlock_def isScheduled_def templateText_def)
    moreover have "Println (arrivalLabel @ js ''09:00'') \<in> set (deliveryLine d)"
      using that t by (simp add: deliveryLine_def isScheduled_def templateText_def)
    moreover have "\<forall>t. Println (deliveryLabel @ t) \<notin> set (deliveryLine d)"
      using that labels_differ labels_differ [symmetric]
      by (auto simp: deliveryLine_def isScheduled_def)
    ultimately show ?thesis
      using t scheduledBlock_in_output deliveryLine_in_output by blast
  qed
  show ?thesis
    using zero minute nine by (simp only: isScheduled_def simp_thms) blast
qed

theorem scheduled_by_hour_witness:
  "scheduledDeliveryHour midnightOrder = Some 0
   \<and> isScheduled midnightOrder
   \<and> scheduledBlock midnightOrder \<noteq> []
   \<and> scheduledDeliveryHour morningOrder = Some 9
   \<and> scheduledDeliveryMinute morningOrder = None
   \<and> scheduledTime morningOrder = Some (js ''09:00'')
   \<and> Println (bannerText (js ''09:00'')) \<in> set (buildReceipt examplePlatform [] morningOrder)
   \<and> Println (arrivalLabel @ js ''09:00'') \<in> set (buildReceipt examplePlatform [] morningOrder)"
proof -
  have m: "scheduledDeliveryHour midnightOrder = Some 0"
    by (simp add: midnightOrder_def)
  have n: "scheduledDeliveryHour morningOrder = Some 9 \<and> scheduledDeliveryMinute morningOrder = None"
    by (simp add: morningOrder_def sampleOrder_def)
  note zero = scheduled_by_hour [of midnightOrder examplePlatform "[]"]
  note nine = scheduled_by_hour [of morningOrder examplePlatform "[]"]
  have "isScheduled midnightOrder"
    using zero m by blast
  moreover have "scheduledBlock midnightOrder \<noteq> []"
    using zero m by (simp only: simp_thms) (metis list.distinct(1))
  moreover have "scheduledTime morningOrder = Some (js ''09:00'')
      \<and> Println (bannerText (js ''09:00'')) \<in> set (buildReceipt examplePlatform [] morningOrder)
      \<and> Println (arrivalLabel @ js ''09:00'') \<in> set (buildReceipt examplePlatform [] morningOrder)"
    using nine n by blast
  ultimately show ?thesis
    using m n by blast
qed

section \<open>Properties of the transport\<close>

lemma print_after_staging:
  "stage e buf w = (None, w2) \<Longrightarrow>
   printReceipt e (Some buf) w =
     (case execSync e (files w2) (submitted e w) of
        Returned \<Rightarrow> (Inr (), None,
          cleanup e (tmpBin e) (w2\<lparr>submissions := submissions w @ [submitted e w]\<rparr>))
      | Threw msg \<Rightarrow> (Inl (Error (errPrefix @ msg)), Some buf,
          cleanup e (tmpBin e) (w2\<lparr>submissions := submissions w @ [submitted e w]\<rparr>)))"
  by (simp add: printReceipt_def Let_def)

lemma print_staging_failed:
  "stage e buf w = (Some err, w2) \<Longrightarrow> printReceipt e (Some buf) w = (Inl err, Some buf, w2)"
  by (simp add: printReceipt_def)

lemma submission_after_staging:
  "stage e buf w = (None, w2) \<Longrightarrow>
   submission e buf w = Some (execSync e (files w2) (submitted e w))"
  by (simp add: submission_def)

lemma submission_staging_failed:
  "stage e buf w = (Some err, w2) \<Longrightarrow> submission e buf w = None"
  by (simp add: submission_def)

lemma stage_cases:
  obtains (ok) w2 where "stage e buf w = (None, w2)"
  | (failed) err w2 where "stage e buf w = (Some err, w2)"
  by (cases "stage e buf w") (metis option.exhaust)

lemma stage_acceptingHost:
  "fst (stage acceptingHost buf freshWorld) = None"
  by (simp add: stage_def ensureRawPrintScript_def writeFileSync_def acceptingHost_def
      freshWorld_def Let_def)

lemma stage_rejectingHost:
  "fst (stage rejectingHost buf freshWorld) = None"
  by (simp add: stage_def ensureRawPrintScript_def writeFileSync_def rejectingHost_def
      freshWorld_def Let_def)

lemma stage_lockingHost:
  "fst (stage lockingHost buf freshWorld) = None"
  by (simp add: stage_def ensureRawPrintScript_def writeFileSync_def lockingHost_def
      acceptingHost_def freshWorld_def Let_def)

lemma submission_fst_stage:
  "fst (stage e buf w) = None \<Longrightarrow>
   submission e buf w = Some (execSync e (files (snd (stage e buf w))) (submitted e w))"
  by (cases "stage e buf w") (simp add: submission_def)

lemma files_staged:
  "fst (stage e buf w) = None \<Longrightarrow> files (snd (stage e buf w)) (tmpBin e) = Some (Staged buf)"
  by (auto simp: stage_def writeFileSync_def split: prod.splits option.splits if_splits)

lemma files_cleanup:
  "files w p = Some c \<Longrightarrow>
   files (cleanup e p w) p = (if unlinkFails e p = None then None else Some c)"
  by (auto simp: cleanup_def unlinkSync_def split: option.splits)

lemma files_after_print:
  assumes "fst (stage e buf w) = None"
  shows "files (snd (snd (printReceipt e (Some buf) w))) (tmpBin e)
      = (if unlinkFails e (tmpBin e) = None then None else Some (Staged buf))"
proof -
  obtain w2 where st: "stage e buf w = (None, w2)"
    using assms by (cases "stage e buf w") simp
  then have "files w2 (tmpBin e) = Some (Staged buf)"
    using files_staged [OF assms] by simp
  then have "files (w2\<lparr>submissions := submissions w @ [submitted e w]\<rparr>) (tmpBin e)
      = Some (Staged buf)"
    by simp
  from files_cleanup [OF this, where e = e] show ?thesis
    by (cases "execSync e (files w2) (submitted e w)")
      (simp_all add: print_after_staging [OF st])
qed

lemma writeFileSync_unlinkFails:
  "writeFileSync (e\<lparr>unlinkFails := f\<rparr>) p c fs = writeFileSync e p c fs"
  by (simp add: writeFileSync_def)

lemma tmpBin_unlinkFails: "tmpBin (e\<lparr>unlinkFails := f\<rparr>) = tmpBin e"
  by (simp add: tmpBin_def)

lemma ensureRawPrintScript_unlinkFails:
  "ensureRawPrintScript (e\<lparr>unlinkFails := f\<rparr>) w = ensureRawPrintScript e w"
  by (simp add: ensureRawPrintScript_def writeFileSync_unlinkFails)

lemma stage_unlinkFails: "stage (e\<lparr>unlinkFails := f\<rparr>) buf w = stage e buf w"
  by (simp add: stage_def ensureRawPrintScript_unlinkFails writeFileSync_unlinkFails
      tmpBin_unlinkFails split: prod.splits option.splits)

lemma submitted_unlinkFails: "submitted (e\<lparr>unlinkFails := f\<rparr>) w = submitted e w"
  by (simp add: submitted_def ensureRawPrintScript_unlinkFails tmpBin_unlinkFails)

lemma outcome_unlinkFails:
  "fst (printReceipt (e\<lparr>unlinkFails := f\<rparr>) (Some buf) w) = fst (printReceipt e (Some buf) w)
   \<and> fst (snd (printReceipt (e\<lparr>unlinkFails := f\<rparr>) (Some buf) w))
       = fst (snd (printReceipt e (Some buf) w))"
proof (cases rule: stage_cases [of e buf w])
  case (ok w2)
  then have "stage (e\<lparr>unlinkFails := f\<rparr>) buf w = (None, w2)"
    by (simp add: stage_unlinkFails)
  from print_after_staging [OF this] print_after_staging [OF ok] show ?thesis
    by (cases "execSync e (files w2) (submitted e w)") (simp_all add: submitted_unlinkFails)
next
  case (failed err w2)
  then have "stage (e\<lparr>unlinkFails := f\<rparr>) buf w = (Some err, w2)"
    by (simp add: stage_unlinkFails)
  from print_staging_failed [OF this] print_staging_failed [OF failed] show ?thesis
    by simp
qed

lemma submissions_cleanup: "submissions (cleanup e p w) = submissions w"
  by (simp add: cleanup_def split: sum.splits)

lemma submissions_after_print:
  assumes "submission e buf w \<noteq> None"
  shows "submissions (snd (snd (printReceipt e (Some buf) w))) = submissions w @ [submitted e w]"
proof (cases rule: stage_cases [of e buf w])
  case (ok w2)
  then show ?thesis
    by (cases "execSync e (files w2) (submitted e w)")
      (simp_all add: print_after_staging submissions_cleanup)
next
  case (failed err w2)
  then show ?thesis
    using assms by (simp add: submission_staging_failed)
qed

lemma stage_after_init:
  "fst (stage acceptingHost buf (snd (initPrinter port name freshWorld))) = None"
  by (simp add: stage_def ensureRawPrintScript_def writeFileSync_def acceptingHost_def
      initPrinter_def freshWorld_def Let_def)

lemma script_after_init:
  "fst (snd (ensureRawPrintScript acceptingHost (snd (initPrinter port name freshWorld))))
     = js ''C:/Temp/onuljang-raw-print.ps1''"
  by (simp add: ensureRawPrintScript_def writeFileSync_def initPrinter_def freshWorld_def
      acceptingHost_def Let_def js_def)

text \<open>
  C5. When there is a buffer to print and the attempt reaches the spooler: if the
  submission returns, \<open>printReceipt\<close> completes normally and the printer's buffer is
  cleared; if the submission throws (rejection by the spooler, nonzero exit, timeout),
  \<open>printReceipt\<close> throws an error whose message is the failure prefix followed by the
  message of the original error, and the printer's buffer is as it was. When staging
  fails before the spooler is reached, \<open>printReceipt\<close> throws and the buffer is as it was.
\<close>

theorem printReceipt_buffer:
  "(submission e buf w = Some Returned \<longrightarrow>
      fst (printReceipt e (Some buf) w) = Inr ()
      \<and> fst (snd (printReceipt e (Some buf) w)) = None)
   \<and> (submission e buf w = Some (Threw msg) \<longrightarrow>
      fst (printReceipt e (Some buf) w) = Inl (Error (errPrefix @ msg))
      \<and> fst (snd (printReceipt e (Some buf) w)) = Some buf)
   \<and> (submission e buf w = None \<longrightarrow>
      (\<exists>err. fst (printReceipt e (Some buf) w) = Inl err)
      \<and> fst (snd (printReceipt e (Some buf) w)) = Some buf)"
proof (cases rule: stage_cases [of e buf w])
  case (ok w2)
  then show ?thesis
    by (cases "execSync e (files w2) (submitted e w)")
      (simp_all add: print_after_staging submission_after_staging)
next
  case (failed err w2)
  then show ?thesis
    by (simp add: print_staging_failed submission_staging_failed)
qed

theorem printReceipt_buffer_witness:
  "submission acceptingHost [0x1B, 0x40] freshWorld = Some Returned
   \<and> fst (printReceipt acceptingHost (Some [0x1B, 0x40]) freshWorld) = Inr ()
   \<and> fst (snd (printReceipt acceptingHost (Some [0x1B, 0x40]) freshWorld)) = None
   \<and> submission rejectingHost [0x1B, 0x40] freshWorld = Some (Threw (js ''Command failed''))
   \<and> fst (printReceipt rejectingHost (Some [0x1B, 0x40]) freshWorld)
       = Inl (Error (errPrefix @ js ''Command failed''))
   \<and> fst (snd (printReceipt rejectingHost (Some [0x1B, 0x40]) freshWorld)) = Some [0x1B, 0x40]
   \<and> submission fullDiskHost [0x1B, 0x40] freshWorld = None
   \<and> fst (snd (printReceipt fullDiskHost (Some [0x1B, 0x40]) freshWorld)) = Some [0x1B, 0x40]"
proof -
  have ok: "submission acceptingHost [0x1B, 0x40] freshWorld = Some Returned"
    using submission_fst_stage [OF stage_acceptingHost] by (simp add: acceptingHost_def)
  have bad: "submission rejectingHost [0x1B, 0x40] freshWorld
      = Some (Threw (js ''Command failed''))"
    using submission_fst_stage [OF stage_rejectingHost] by (simp add: rejectingHost_def)
  have full: "submission fullDiskHost [0x1B, 0x40] freshWorld = None"
    by (simp add: submission_def stage_def ensureRawPrintScript_def writeFileSync_def
        fullDiskHost_def acceptingHost_def freshWorld_def tmpBin_def numberToString_def
        decimalDigits.simps js_def Let_def)
  show ?thesis
    using ok bad full
      printReceipt_buffer [of acceptingHost "[0x1B, 0x40]" freshWorld "[]"]
      printReceipt_buffer [of rejectingHost "[0x1B, 0x40]" freshWorld "js ''Command failed''"]
      printReceipt_buffer [of fullDiskHost "[0x1B, 0x40]" freshWorld "[]"]
    by blast
qed

text \<open>
  C6. Once the buffer is staged in the file \<open>tmpBin\<close>, its removal is attempted after the
  submission, whatever the submission did. When the host lets the file be removed it no
  longer exists when \<open>printReceipt\<close> is over. When the removal fails, the failure is
  swallowed: the file stays on disk, and the result of \<open>printReceipt\<close> and the printer's
  buffer are what they are on a host that removes every file. Without a buffer nothing
  is staged and the world is untouched.
\<close>

theorem staged_file_cleanup:
  "(fst (stage e buf w) = None \<longrightarrow>
      files (snd (stage e buf w)) (tmpBin e) = Some (Staged buf)
      \<and> (unlinkFails e (tmpBin e) = None \<longrightarrow>
           files (snd (snd (printReceipt e (Some buf) w))) (tmpBin e) = None)
      \<and> (unlinkFails e (tmpBin e) \<noteq> None \<longrightarrow>
           files (snd (snd (printReceipt e (Some buf) w))) (tmpBin e) = Some (Staged buf)))
   \<and> fst (printReceipt e (Some buf) w)
       = fst (printReceipt (e\<lparr>unlinkFails := (\<lambda>p. None)\<rparr>) (Some buf) w)
   \<and> fst (snd (printReceipt e (Some buf) w))
       = fst (snd (printReceipt (e\<lparr>unlinkFails := (\<lambda>p. None)\<rparr>) (Some buf) w))
   \<and> snd (snd (printReceipt e None w)) = w"
proof -
  have "snd (snd (printReceipt e None w)) = w"
    by (simp add: printReceipt_def)
  then show ?thesis
    using files_staged [of e buf w] files_after_print [of e buf w]
      outcome_unlinkFails [where e = e and f = "\<lambda>p. None" and buf = buf and w = w]
    by simp
qed

theorem staged_file_cleanup_witness:
  "fst (stage acceptingHost [0x1B, 0x40] freshWorld) = None
   \<and> unlinkFails acceptingHost (tmpBin acceptingHost) = None
   \<and> files (snd (snd (printReceipt acceptingHost (Some [0x1B, 0x40]) freshWorld)))
        (tmpBin acceptingHost) = None
   \<and> fst (stage lockingHost [0x1B, 0x40] freshWorld) = None
   \<and> unlinkFails lockingHost (tmpBin lockingHost) \<noteq> None
   \<and> files (snd (snd (printReceipt lockingHost (Some [0x1B, 0x40]) freshWorld)))
        (tmpBin lockingHost) = Some (Staged [0x1B, 0x40])"
proof -
  have a: "unlinkFails acceptingHost (tmpBin acceptingHost) = None"
    by (simp add: acceptingHost_def)
  have l: "unlinkFails lockingHost (tmpBin lockingHost) \<noteq> None"
    by (simp add: lockingHost_def)
  show ?thesis
    using a l stage_acceptingHost [of "[0x1B, 0x40]"] stage_lockingHost [of "[0x1B, 0x40]"]
      staged_file_cleanup [of acceptingHost "[0x1B, 0x40]" freshWorld]
      staged_file_cleanup [of lockingHost "[0x1B, 0x40]" freshWorld]
    by blast
qed

text \<open>
  On a host that refuses to remove files the submission is accepted, \<open>printReceipt\<close>
  completes normally, and the staged file is still on disk.
\<close>

theorem staged_file_left_counterexample:
  "submission lockingHost [0x1B, 0x40] freshWorld = Some Returned
   \<and> fst (printReceipt lockingHost (Some [0x1B, 0x40]) freshWorld) = Inr ()
   \<and> tmpBin lockingHost = js ''C:/Temp/receipt-1770829683000.bin''
   \<and> files (snd (snd (printReceipt lockingHost (Some [0x1B, 0x40]) freshWorld)))
        (js ''C:/Temp/receipt-1770829683000.bin'') = Some (Staged [0x1B, 0x40])"
  by (simp add: submission_def printReceipt_def stage_def ensureRawPrintScript_def
      writeFileSync_def cleanup_def unlinkSync_def submitted_def lockingHost_def
      acceptingHost_def freshWorld_def tmpBin_def numberToString_def decimalDigits.simps
      js_def Let_def)

text \<open>
  The staging write stands before the \<open>try\<close>. On a host that cannot write the staged
  file the error of the write leaves \<open>printReceipt\<close> as it is, and what the write left of
  the file is not removed.
\<close>

lemma staging_failure_example:
  "fst (printReceipt fullDiskHost (Some [0x1B, 0x40]) freshWorld) = Inl (Error (js ''ENOSPC''))
   \<and> files (snd (snd (printReceipt fullDiskHost (Some [0x1B, 0x40]) freshWorld)))
        (js ''C:/Temp/receipt-1770829683000.bin'') = Some Incomplete"
  by (simp add: printReceipt_def stage_def ensureRawPrintScript_def
      writeFileSync_def fullDiskHost_def
      acceptingHost_def freshWorld_def tmpBin_def numberToString_def decimalDigits.simps
      js_def Let_def)

text \<open>
  C7. On first resolution the two fallbacks are independent. The interface path is that of
  \<open>LPT1\<close> when Discovery yields no port, and that of the discovered port when it yields
  one, whatever it found for the name. The device name is kept as Discovery gave it,
  whatever it found for the port: it is unresolved exactly when Discovery yields no name.
  A following print attempt that reaches the spooler submits under the default device
  name \<open>SEWOO SLK-TS 100\<close> when the name is unresolved, and under the discovered name
  otherwise. When Discovery finds neither, the port is \<open>LPT1\<close> and the name the default.
\<close>

theorem discovery_fallbacks:
  "printerInstance w = None \<longrightarrow>
     (port = None \<longrightarrow> fst (initPrinter port name w) = [0x5C, 0x5C, 0x2E, 0x5C] @ js ''LPT1'')
   \<and> (port = Some p \<and> p \<noteq> [] \<longrightarrow>
        fst (initPrinter port name w) = [0x5C, 0x5C, 0x2E, 0x5C] @ p)
   \<and> sewooPrinterName (snd (initPrinter port name w)) = name
   \<and> (submission e buf (snd (initPrinter port name w)) \<noteq> None \<longrightarrow>
        (name = None \<longrightarrow>
          submissions (snd (snd (printReceipt e (Some buf) (snd (initPrinter port name w)))))
          = submissions w
            @ [spoolCommand (fst (snd (ensureRawPrintScript e (snd (initPrinter port name w)))))
                 (tmpBin e) (js ''SEWOO SLK-TS 100'')])
      \<and> (name = Some n \<and> n \<noteq> [] \<longrightarrow>
          submissions (snd (snd (printReceipt e (Some buf) (snd (initPrinter port name w)))))
          = submissions w
            @ [spoolCommand (fst (snd (ensureRawPrintScript e (snd (initPrinter port name w)))))
                 (tmpBin e) n]))"
proof
  assume fresh: "printerInstance w = None"
  let ?w = "snd (initPrinter port name w)"
  let ?script = "fst (snd (ensureRawPrintScript e ?w))"
  have lpt: "fst (initPrinter port name w) = [0x5C, 0x5C, 0x2E, 0x5C] @ js ''LPT1''"
    if "port = None"
    using fresh that by (simp add: initPrinter_def Let_def)
  have found: "fst (initPrinter port name w) = [0x5C, 0x5C, 0x2E, 0x5C] @ p"
    if "port = Some p" "p \<noteq> []"
    using fresh that by (simp add: initPrinter_def Let_def)
  have nm: "sewooPrinterName ?w = name"
    using fresh by (simp add: initPrinter_def Let_def)
  have subs: "submissions ?w = submissions w"
    using fresh by (simp add: initPrinter_def Let_def)
  have trace: "submissions (snd (snd (printReceipt e (Some buf) ?w)))
      = submissions w @ [spoolCommand ?script (tmpBin e) (printerName ?w)]"
    if "submission e buf ?w \<noteq> None"
    using submissions_after_print [OF that] by (simp only: subs submitted_def)
  have dflt: "printerName ?w = js ''SEWOO SLK-TS 100''" if "name = None"
    using that nm by (simp add: printerName_def)
  have given: "printerName ?w = n" if "name = Some n" "n \<noteq> []"
    using that nm by (simp add: printerName_def)
  show "(port = None \<longrightarrow> fst (initPrinter port name w) = [0x5C, 0x5C, 0x2E, 0x5C] @ js ''LPT1'')
   \<and> (port = Some p \<and> p \<noteq> [] \<longrightarrow>
        fst (initPrinter port name w) = [0x5C, 0x5C, 0x2E, 0x5C] @ p)
   \<and> sewooPrinterName ?w = name
   \<and> (submission e buf ?w \<noteq> None \<longrightarrow>
        (name = None \<longrightarrow>
          submissions (snd (snd (printReceipt e (Some buf) ?w)))
          = submissions w @ [spoolCommand ?script (tmpBin e) (js ''SEWOO SLK-TS 100'')])
      \<and> (name = Some n \<and> n \<noteq> [] \<longrightarrow>
          submissions (snd (snd (printReceipt e (Some buf) ?w)))
          = submissions w @ [spoolCommand ?script (tmpBin e) n]))"
    using lpt found nm trace dflt given by (simp only: simp_thms) metis
qed

theorem discovery_fallbacks_witness:
  "printerInstance freshWorld = None
   \<and> fst (initPrinter None None freshWorld) = [0x5C, 0x5C, 0x2E, 0x5C] @ js ''LPT1''
   \<and> sewooPrinterName (snd (initPrinter None None freshWorld)) = None
   \<and> submission acceptingHost [0x1B, 0x40] (snd (initPrinter None None freshWorld)) \<noteq> None
   \<and> submissions (snd (snd (printReceipt acceptingHost (Some [0x1B, 0x40])
         (snd (initPrinter None None freshWorld)))))
      = [spoolCommand (js ''C:/Temp/onuljang-raw-print.ps1'')
           (js ''C:/Temp/receipt-1770829683000.bin'') (js ''SEWOO SLK-TS 100'')]
   \<and> fst (initPrinter (Some (js ''USB001'')) (Some (js ''SEWOO LK-T21'')) freshWorld)
       = [0x5C, 0x5C, 0x2E, 0x5C] @ js ''USB001''
   \<and> submissions (snd (snd (printReceipt acceptingHost (Some [0x1B, 0x40])
         (snd (initPrinter (Some (js ''USB001'')) (Some (js ''SEWOO LK-T21'')) freshWorld)))))
      = [spoolCommand (js ''C:/Temp/onuljang-raw-print.ps1'')
           (js ''C:/Temp/receipt-1770829683000.bin'') (js ''SEWOO LK-T21'')]"
proof -
  have fresh: "printerInstance freshWorld = None"
    by (simp add: freshWorld_def)
  have bin: "tmpBin acceptingHost = js ''C:/Temp/receipt-1770829683000.bin''"
    by (simp add: tmpBin_def acceptingHost_def numberToString_def decimalDigits.simps js_def)
  have none: "submissions freshWorld = []"
    by (simp add: freshWorld_def)
  have reached: "submission acceptingHost [0x1B, 0x40] (snd (initPrinter port name freshWorld))
      \<noteq> None" for port name
    using submission_fst_stage [OF stage_after_init] by simp
  have ne: "js ''USB001'' \<noteq> [] \<and> js ''SEWOO LK-T21'' \<noteq> []"
    by (simp add: js_def)
  note absent = discovery_fallbacks [where w = freshWorld and port = None and name = None
      and p = "[]" and n = "[]" and e = acceptingHost and buf = "[0x1B, 0x40]"]
  note present = discovery_fallbacks [where w = freshWorld and port = "Some (js ''USB001'')"
      and p = "js ''USB001''" and name = "Some (js ''SEWOO LK-T21'')"
      and n = "js ''SEWOO LK-T21''" and e = acceptingHost and buf = "[0x1B, 0x40]"]
  show ?thesis
    using absent present fresh reached ne
    by (simp add: script_after_init bin none)
qed

text \<open>
  With a port but no name the interface path is that of the discovered port, not of
  \<open>LPT1\<close>; with a name but no port the name is resolved and the print attempt uses it,
  not the default.
\<close>

theorem discovery_fallbacks_counterexample:
  "printerInstance freshWorld = None
   \<and> fst (initPrinter (Some (js ''USB001'')) None freshWorld)
       = [0x5C, 0x5C, 0x2E, 0x5C] @ js ''USB001''
   \<and> fst (initPrinter (Some (js ''USB001'')) None freshWorld)
       \<noteq> [0x5C, 0x5C, 0x2E, 0x5C] @ js ''LPT1''
   \<and> sewooPrinterName (snd (initPrinter None (Some (js ''SEWOO LK-T21'')) freshWorld))
       = Some (js ''SEWOO LK-T21'')
   \<and> printerName (snd (initPrinter None (Some (js ''SEWOO LK-T21'')) freshWorld))
       \<noteq> js ''SEWOO SLK-TS 100''"
  by (simp add: initPrinter_def freshWorld_def printerName_def Let_def js_def)

end
